theory Spec2Isabelle
  imports Complex_Main "HOL-Library.Char_ord" "HOL-Library.List_Lexorder"
begin

section \<open>The projections dashboard view (NBAWeb/NBAWeb/views.py)\<close>

text \<open>
  The repository has one function with logic in it, the Django view \<open>home\<close>. It
  computes the path of \<open>data_feed/projections.csv\<close>, and when the file exists it
  reads it with pandas, rounds it to one decimal, walks the rows to collect each matchup
  once, and hands a context dictionary to the template renderer. A missing file and any
  exception end in an \<open>error\<close> entry of the context instead.

  pandas, \<open>os.path\<close> and Django are libraries, not code of the repository. What
  \<open>home\<close> asks of them is modelled below, each piece named after the call it
  stands for; what is theirs alone (how CSV text is parsed, what \<open>str()\<close> prints for
  a number or an exception) is a field of the environment record \<open>env\<close>, and every
  theorem holds for each value of it.
\<close>

subsection \<open>Data\<close>

text \<open>
  A value of the data frame is text, a finite number, NaN (what \<open>pd.read_csv\<close> makes
  of an empty field) or an infinity (\<open>Inf True\<close> is the negative one). Strings are byte
  strings (UTF-8), ordered as Python orders \<open>str\<close>: lexicographically by code point,
  which on UTF-8 is the bytewise order.

  Text is modelled exactly. A finite number is idealised: an \<open>int64\<close> and a
  \<open>float64\<close> value are both \<open>Num\<close>, the rational they denote, and arithmetic on
  them is exact, which arithmetic on doubles is not (rounding error, overflow, the sign
  of zero, the cast of a whole row to one dtype). So no theorem that speaks of every
  file depends on the value of a number: those about \<open>games\<close> are about files whose
  team codes are text, where no number is compared or printed, and none says what value
  a rounded number has. A number is evaluated only at concrete inputs, chosen where
  doubles and rationals agree.
\<close>

datatype cell = Str string | Num rat | NaN | Inf bool

type_synonym path = "string list"

text \<open>
  The exceptions that can reach the \<open>except Exception\<close> clause: a missing column in
  \<open>row[...]\<close>, the comparison of text with a number inside \<open>sorted\<close> (with the two
  operands of \<open><\<close>, left one first), and whatever \<open>pd.read_csv\<close> raises, named by
  the library.
\<close>

datatype exn =
    KeyError string
  | TypeError cell cell
  | FileNotFoundError path
  | ReadError string

text \<open>A data frame as \<open>pd.read_csv\<close> returns it: the header and the data rows, in file order.\<close>

record dataframe =
  columns :: "string list"
  rows :: "cell list list"

text \<open>The values stored in the context dictionary of \<open>home\<close>.\<close>

datatype ctx_value =
    CStr string
  | CInt int
  | CRecords "(string \<times> cell) list list"
  | CList "string list"

type_synonym view_context = "string \<rightharpoonup> ctx_value"

text \<open>What \<open>render(request, 'index.html', context)\<close> is given.\<close>

record 'r response =
  request :: 'r
  template_name :: string
  view_ctx :: view_context

text \<open>
  The file system: the node behind each path (\<open>'n\<close>: a file with its bytes, a
  directory, an unreadable file, as the library sees it), and the log of the accesses
  the program has made so far.
\<close>

datatype access = Stat path | Read path

record 'n world =
  files :: "path \<rightharpoonup> 'n"
  log :: "access list"

text \<open>
  The environment of the call:
  \<^item> \<open>module_file\<close>: \<open>os.path.abspath(__file__)\<close>, split into its components;
  \<^item> \<open>read_csv\<close>: what \<open>pd.read_csv\<close> makes of a node, a frame or an exception;
  \<^item> \<open>num_str\<close>: what \<open>str()\<close> prints for a number of the named column (it depends
    on the column's dtype, \<open>1\<close> or \<open>1.0\<close>, and on the float formatting routine);
  \<^item> \<open>exn_str\<close>: what \<open>str(e)\<close> prints for an exception.
\<close>

record 'n env =
  module_file :: path
  read_csv :: "'n \<Rightarrow> exn + dataframe"
  num_str :: "string \<Rightarrow> rat \<Rightarrow> string"
  exn_str :: "exn \<Rightarrow> string"

subsection \<open>Library calls\<close>

text \<open>\<open>os.path.dirname\<close> and \<open>os.path.join\<close> on a path given by its components.\<close>

definition dirname :: "path \<Rightarrow> path" where
  "dirname p = butlast p"

definition path_join :: "path \<Rightarrow> string \<Rightarrow> path" where
  "path_join p name = p @ [name]"

text \<open>\<open>os.path.exists\<close> asks the file system and changes nothing in it.\<close>

definition os_path_exists :: "path \<Rightarrow> 'n world \<Rightarrow> bool \<times> 'n world" where
  "os_path_exists p w = (files w p \<noteq> None, w\<lparr>log := log w @ [Stat p]\<rparr>)"

text \<open>\<open>pd.read_csv(path)\<close> reads the node at the path and parses it.\<close>

definition pd_read_csv :: "'n env \<Rightarrow> path \<Rightarrow> 'n world \<Rightarrow> (exn + dataframe) \<times> 'n world" where
  "pd_read_csv E p w =
     (case files w p of
        None \<Rightarrow> Inl (FileNotFoundError p)
      | Some node \<Rightarrow> read_csv E node,
      w\<lparr>log := log w @ [Read p]\<rparr>)"

text \<open>
  \<open>numpy.rint\<close>: the nearest integer, a tie going to the even one. \<open>DataFrame.round(1)\<close>
  rounds each number as numpy does, \<open>rint(x * 10) / 10\<close> (here in exact arithmetic), and
  leaves text, NaN and the infinities alone.
\<close>

definition rint :: "rat \<Rightarrow> int" where
  "rint x =
     (let f = \<lfloor>x\<rfloor>; d = x - of_int f
      in if d < 1 / 2 then f
         else if 1 / 2 < d then f + 1
         else if even f then f else f + 1)"

definition np_round1 :: "rat \<Rightarrow> rat" where
  "np_round1 x = of_int (rint (x * 10)) / 10"

fun round_cell :: "cell \<Rightarrow> cell" where
  "round_cell (Str s) = Str s"
| "round_cell (Num x) = Num (np_round1 x)"
| "round_cell NaN = NaN"
| "round_cell (Inf neg) = Inf neg"

definition df_round1 :: "dataframe \<Rightarrow> dataframe" where
  "df_round1 df = df\<lparr>rows := map (map round_cell) (rows df)\<rparr>"

text \<open>\<open>df.to_dict('records')\<close>: each row as a dictionary from column name to value.\<close>

definition to_dict_records :: "dataframe \<Rightarrow> (string \<times> cell) list list" where
  "to_dict_records df = map (zip (columns df)) (rows df)"

text \<open>\<open>row[key]\<close> on a row of \<open>df.iterrows()\<close>: KeyError when the frame has no such column.\<close>

definition getitem :: "string list \<Rightarrow> cell list \<Rightarrow> string \<Rightarrow> exn + cell" where
  "getitem cols r key =
     (case map_of (zip cols r) key of
        None \<Rightarrow> Inl (KeyError key)
      | Some v \<Rightarrow> Inr v)"

text \<open>
  \<open>a < b\<close> on two values that are not text: false whenever a NaN is involved.
\<close>

fun num_lt :: "cell \<Rightarrow> cell \<Rightarrow> bool" where
  "num_lt (Num x) (Num y) = (x < y)"
| "num_lt (Num x) (Inf neg) = (\<not> neg)"
| "num_lt (Inf neg) (Num y) = neg"
| "num_lt (Inf neg) (Inf neg') = (neg \<and> \<not> neg')"
| "num_lt a b = False"

text \<open>
  \<open>tuple(sorted([a, b]))\<close>. On two elements \<open>sorted\<close> asks once, \<open>b < a\<close>, and swaps
  when it holds. Text against anything else (a number, a NaN) raises TypeError.
\<close>

fun py_sorted :: "cell \<Rightarrow> cell \<Rightarrow> exn + cell \<times> cell" where
  "py_sorted (Str s) (Str t) = Inr (if t < s then (Str t, Str s) else (Str s, Str t))"
| "py_sorted (Str s) b = Inl (TypeError b (Str s))"
| "py_sorted a (Str t) = Inl (TypeError (Str t) a)"
| "py_sorted a b = Inr (if num_lt b a then (b, a) else (a, b))"

text \<open>
  \<open>matchup in seen_matchups\<close>. A set finds an element that is the same object or
  compares equal. Text and numbers compare by value; the NaN of a row is an object of its
  own and equals nothing, so a key that holds one is never found.
\<close>

definition py_in :: "cell \<times> cell \<Rightarrow> (cell \<times> cell) set \<Rightarrow> bool" where
  "py_in key seen = (fst key \<noteq> NaN \<and> snd key \<noteq> NaN \<and> key \<in> seen)"

text \<open>The f-string \<open>f"{row['team_abbreviation']} vs {row['opponent']}"\<close>.\<close>

fun py_str :: "'n env \<Rightarrow> string \<Rightarrow> cell \<Rightarrow> string" where
  "py_str E col (Str s) = s"
| "py_str E col (Num x) = num_str E col x"
| "py_str E col NaN = ''nan''"
| "py_str E col (Inf neg) = (if neg then ''-inf'' else ''inf'')"

definition display :: "'n env \<Rightarrow> cell \<times> cell \<Rightarrow> string" where
  "display E p = py_str E ''team_abbreviation'' (fst p) @ '' vs '' @ py_str E ''opponent'' (snd p)"

subsection \<open>The view\<close>

text \<open>
  The loop over \<open>df.iterrows()\<close>, with its two accumulators \<open>seen_matchups\<close> and
  \<open>unique_matchups\<close>. An exception in the body ends the loop.
\<close>

fun matchup_loop ::
  "'n env \<Rightarrow> string list \<Rightarrow> cell list list \<Rightarrow> (cell \<times> cell) set \<Rightarrow> string list
     \<Rightarrow> exn + string list" where
  "matchup_loop E cols [] seen_matchups unique_matchups = Inr unique_matchups"
| "matchup_loop E cols (row # rest) seen_matchups unique_matchups =
     (case getitem cols row ''team_abbreviation'' of
        Inl e \<Rightarrow> Inl e
      | Inr team \<Rightarrow>
     (case getitem cols row ''opponent'' of
        Inl e \<Rightarrow> Inl e
      | Inr opp \<Rightarrow>
     (case py_sorted team opp of
        Inl e \<Rightarrow> Inl e
      | Inr matchup \<Rightarrow>
          if \<not> py_in matchup seen_matchups
          then matchup_loop E cols rest (insert matchup seen_matchups)
                 (unique_matchups @ [display E (team, opp)])
          else matchup_loop E cols rest seen_matchups unique_matchups)))"

definition base_dir :: "'n env \<Rightarrow> path" where
  "base_dir E = dirname (dirname (module_file E))"

definition data_folder :: "'n env \<Rightarrow> path" where
  "data_folder E = path_join (base_dir E) ''data_feed''"

definition csv_path :: "'n env \<Rightarrow> path" where
  "csv_path E = path_join (data_folder E) ''projections.csv''"

definition initial_context :: view_context where
  "initial_context = [''title'' \<mapsto> CStr ''NBA AI Projections'', ''year'' \<mapsto> CInt 2026]"

text \<open>
  Lines 20 to 33, from the frame that \<open>pd.read_csv\<close> returned: the frame is rounded,
  the loop runs, and only then are \<open>projections\<close> and \<open>games\<close> stored, so an
  exception in the loop leaves the context as it was.
\<close>

definition build_context :: "'n env \<Rightarrow> dataframe \<Rightarrow> exn + view_context" where
  "build_context E df0 =
     (let df = df_round1 df0
      in case matchup_loop E (columns df) (rows df) {} [] of
           Inl e \<Rightarrow> Inl e
         | Inr unique_matchups \<Rightarrow>
             Inr (initial_context
                    (''projections'' \<mapsto> CRecords (to_dict_records df),
                     ''games'' \<mapsto> CList unique_matchups)))"

text \<open>The body of the \<open>try\<close> once the file is known to exist.\<close>

definition load_projections :: "'n env \<Rightarrow> 'n world \<Rightarrow> (exn + view_context) \<times> 'n world" where
  "load_projections E w =
     (case pd_read_csv E (csv_path E) w of
        (Inl e, w') \<Rightarrow> (Inl e, w')
      | (Inr df0, w') \<Rightarrow> (build_context E df0, w'))"

text \<open>
  The view. The \<open>except\<close> clause turns an exception of the body into the \<open>error\<close>
  entry; the result is what \<open>render\<close> receives, and the file system as the call
  leaves it.
\<close>

definition home :: "'n env \<Rightarrow> 'r \<Rightarrow> 'n world \<Rightarrow> 'r response \<times> 'n world" where
  "home E req w =
     (let (ex, w1) = os_path_exists (csv_path E) w;
          (ctx, w2) =
            (if ex then
               (case load_projections E w1 of
                  (Inr c, w') \<Rightarrow> (c, w')
                | (Inl e, w') \<Rightarrow>
                    (initial_context(''error'' \<mapsto> CStr (''Error loading data: '' @ exn_str E e)), w'))
             else
               (initial_context(''error'' \<mapsto> CStr ''File not found. Please run the R script.''), w1))
      in (\<lparr>request = req, template_name = ''index.html'', view_ctx = ctx\<rparr>, w2))"

subsection \<open>The words of the specification\<close>

text \<open>
  The specification speaks of the unordered pair of a row's two team codes and of the
  first row that shows a pair. These definitions follow its words; the theorems compare
  them with what the loop computes.
\<close>

text \<open>The (team_abbreviation, opponent) values of a row, when it has both columns.\<close>

definition row_pair :: "string list \<Rightarrow> cell list \<Rightarrow> (cell \<times> cell) option" where
  "row_pair cols r =
     (case map_of (zip cols r) ''team_abbreviation'' of
        None \<Rightarrow> None
      | Some a \<Rightarrow>
          (case map_of (zip cols r) ''opponent'' of
             None \<Rightarrow> None
           | Some b \<Rightarrow> Some (a, b)))"

text \<open>The pairs of the rows of a frame, in row order.\<close>

definition team_pairs :: "dataframe \<Rightarrow> (cell \<times> cell) list" where
  "team_pairs df = List.map_filter (row_pair (columns df)) (rows df)"

definition unordered :: "cell \<times> cell \<Rightarrow> cell set" where
  "unordered p = {fst p, snd p}"

text \<open>The rows whose unordered pair no earlier row has, in file order.\<close>

definition first_occurrences :: "(cell \<times> cell) list \<Rightarrow> (cell \<times> cell) list" where
  "first_occurrences ps =
     map (\<lambda>i. ps ! i)
       (filter (\<lambda>i. unordered (ps ! i) \<notin> unordered ` set (take i ps)) [0..<length ps])"

text \<open>
  Team codes as the data model of the specification has them, short text codes: the
  row has both columns and holds text in each.
\<close>

fun text_pair :: "cell \<times> cell \<Rightarrow> bool" where
  "text_pair (Str s, Str t) = True"
| "text_pair p = False"

definition text_codes :: "string list \<Rightarrow> cell list \<Rightarrow> bool" where
  "text_codes cols r =
     (case row_pair cols r of
        None \<Rightarrow> False
      | Some p \<Rightarrow> text_pair p)"

subsection \<open>Auxiliary functions of the proofs\<close>

text \<open>The key \<open>sorted\<close> gives for a pair of text codes.\<close>

fun sort_key :: "cell \<times> cell \<Rightarrow> cell \<times> cell" where
  "sort_key (Str s, Str t) = (if t < s then (Str t, Str s) else (Str s, Str t))"
| "sort_key p = p"

text \<open>The pairs the loop appends, given the keys it has seen.\<close>

fun keep_new :: "(cell \<times> cell) set \<Rightarrow> (cell \<times> cell) list \<Rightarrow> (cell \<times> cell) list" where
  "keep_new seen [] = []"
| "keep_new seen (p # ps) =
     (if sort_key p \<in> seen then keep_new seen ps
      else p # keep_new (insert (sort_key p) seen) ps)"

subsection \<open>Example inputs\<close>

text \<open>
  An installation under \<open>/srv/NBAWeb\<close>. In the examples a file is identified with what
  \<open>pd.read_csv\<close> makes of it, so the reader is the identity; \<open>str()\<close> of a KeyError
  is its key in quotes, as in Python.
\<close>

fun demo_exn_str :: "exn \<Rightarrow> string" where
  "demo_exn_str (KeyError k) = [CHR 0x27] @ k @ [CHR 0x27]"
| "demo_exn_str (TypeError a b) = ''unorderable operands''"
| "demo_exn_str (FileNotFoundError p) = ''No such file or directory''"
| "demo_exn_str (ReadError m) = m"

definition demo_env :: "(exn + dataframe) env" where
  "demo_env =
     \<lparr>module_file = [''srv'', ''NBAWeb'', ''NBAWeb'', ''views.py''],
      read_csv = (\<lambda>node. node),
      num_str = (\<lambda>col x. ''0''),
      exn_str = demo_exn_str\<rparr>"

definition demo_world :: "exn + dataframe \<Rightarrow> (exn + dataframe) world" where
  "demo_world node =
     \<lparr>files = [[''srv'', ''NBAWeb'', ''data_feed'', ''projections.csv''] \<mapsto> node], log = []\<rparr>"

definition empty_world :: "(exn + dataframe) world" where
  "empty_world = \<lparr>files = Map.empty, log = []\<rparr>"

text \<open>Scenario A of the specification, the value column being called \<open>pts\<close>.\<close>

definition scenario_A :: dataframe where
  "scenario_A =
     \<lparr>columns = [''team_abbreviation'', ''opponent'', ''pts''],
      rows = [[Str ''LAL'', Str ''BOS'', Num (24333 / 1000)],
              [Str ''BOS'', Str ''LAL'', Num (10667 / 1000)]]\<rparr>"

text \<open>Four rows, three matchups, the first one met again in both orientations.\<close>

definition four_rows :: dataframe where
  "four_rows =
     \<lparr>columns = [''team_abbreviation'', ''opponent'', ''pts''],
      rows = [[Str ''LAL'', Str ''BOS'', Num (24333 / 1000)],
              [Str ''BOS'', Str ''LAL'', Num (10667 / 1000)],
              [Str ''GSW'', Str ''NYK'', Num 5],
              [Str ''LAL'', Str ''BOS'', Num (1 / 4)]]\<rparr>"

text \<open>A file with no \<open>opponent\<close> column, and one whose opponents are numbers.\<close>

definition no_opponent :: dataframe where
  "no_opponent =
     \<lparr>columns = [''team_abbreviation'', ''pts''],
      rows = [[Str ''LAL'', Num (24333 / 1000)]]\<rparr>"

definition numbered_opponent :: dataframe where
  "numbered_opponent =
     \<lparr>columns = [''team_abbreviation'', ''opponent''],
      rows = [[Str ''LAL'', Num 5]]\<rparr>"

text \<open>
  Text codes beside a value column with an empty field and an infinity.
\<close>

definition with_missing :: dataframe where
  "with_missing =
     \<lparr>columns = [''team_abbreviation'', ''opponent'', ''pts''],
      rows = [[Str ''LAL'', Str ''BOS'', NaN],
              [Str ''BOS'', Str ''LAL'', Num (10667 / 1000)],
              [Str ''GSW'', Str ''NYK'', Inf False],
              [Str ''LAL'', Str ''BOS'', Num (1 / 4)]]\<rparr>"


definition decimal_codes_both_ways :: dataframe where
  "decimal_codes_both_ways =
     \<lparr>columns = [''team_abbreviation'', ''opponent''],
      rows = [[Num (26 / 25), Num 2],
              [Num 1, Num 2],
              [Num 2, Num 1]]\<rparr>"

text \<open>A file with a header and no data row.\<close>

definition header_only :: dataframe where
  "header_only = \<lparr>columns = [''team_abbreviation'', ''opponent'', ''pts''], rows = []\<rparr>"

section \<open>Lemmas\<close>

subsection \<open>The three outcomes of the view\<close>

lemma home_absent:
  "files w (csv_path E) = None \<Longrightarrow>
   home E req w =
     (\<lparr>request = req, template_name = ''index.html'',
       view_ctx = initial_context(''error'' \<mapsto> CStr ''File not found. Please run the R script.'')\<rparr>,
      w\<lparr>log := log w @ [Stat (csv_path E)]\<rparr>)"
  by (simp add: home_def os_path_exists_def)

lemma home_present:
  "files w (csv_path E) = Some node \<Longrightarrow>
   home E req w =
     (\<lparr>request = req, template_name = ''index.html'',
       view_ctx =
         (case read_csv E node of
            Inl e \<Rightarrow> initial_context(''error'' \<mapsto> CStr (''Error loading data: '' @ exn_str E e))
          | Inr df \<Rightarrow>
              (case build_context E df of
                 Inl e \<Rightarrow> initial_context(''error'' \<mapsto> CStr (''Error loading data: '' @ exn_str E e))
               | Inr c \<Rightarrow> c))\<rparr>,
      w\<lparr>log := log w @ [Stat (csv_path E), Read (csv_path E)]\<rparr>)"
  by (simp add: home_def os_path_exists_def load_projections_def pd_read_csv_def
      split: sum.splits)

lemma build_context_title:
  "build_context E df = Inr c \<Longrightarrow>
   c ''title'' = Some (CStr ''NBA AI Projections'') \<and> c ''year'' = Some (CInt 2026) \<and> c ''error'' = None"
  by (auto simp: build_context_def Let_def initial_context_def split: sum.splits)

subsection \<open>The matchup loop\<close>

lemma getitem_row_pair:
  "row_pair cols r = Some (a, b) \<longleftrightarrow>
   getitem cols r ''team_abbreviation'' = Inr a \<and> getitem cols r ''opponent'' = Inr b"
  by (auto simp: row_pair_def getitem_def split: option.splits)

lemma py_sorted_text: "text_pair (a, b) \<Longrightarrow> py_sorted a b = Inr (sort_key (a, b))"
  by (cases a; cases b) auto

lemma py_in_text: "text_pair p \<Longrightarrow> py_in (sort_key p) seen \<longleftrightarrow> sort_key p \<in> seen"
  by (cases p rule: text_pair.cases) (auto simp: py_in_def)

lemma matchup_loop_text:
  "map (row_pair cols) rs = map Some ps \<Longrightarrow> \<forall>p\<in>set ps. text_pair p \<Longrightarrow>
   matchup_loop E cols rs seen um = Inr (um @ map (display E) (keep_new seen ps))"
proof (induction rs arbitrary: ps seen um)
  case Nil
  then show ?case by simp
next
  case (Cons r rs)
  then obtain p ps' where ps: "ps = p # ps'" by (cases ps) auto
  obtain a b where p: "p = (a, b)" by (cases p)
  from Cons.prems ps p have rp: "row_pair cols r = Some (a, b)"
    and rest: "map (row_pair cols) rs = map Some ps'"
    and tp: "text_pair (a, b)" and tps: "\<forall>p\<in>set ps'. text_pair p"
    by auto
  from rp have g: "getitem cols r ''team_abbreviation'' = Inr a" "getitem cols r ''opponent'' = Inr b"
    by (simp_all add: getitem_row_pair)
  show ?case
    using Cons.IH [OF rest tps]
    by (simp add: g py_sorted_text [OF tp] py_in_text [OF tp] ps p)
qed

lemma sort_key_eq_iff:
  "text_pair p \<Longrightarrow> text_pair q \<Longrightarrow> sort_key p = sort_key q \<longleftrightarrow> unordered p = unordered q"
  by (cases p rule: text_pair.cases; cases q rule: text_pair.cases)
     (auto simp: unordered_def doubleton_eq_iff)

lemma keep_new_snoc:
  "keep_new seen (ps @ [x]) =
   keep_new seen ps @ (if sort_key x \<in> seen \<union> sort_key ` set ps then [] else [x])"
  by (induction ps arbitrary: seen) auto

lemma first_filter_snoc:
  "filter (\<lambda>i. f ((ps @ [x]) ! i) \<notin> A \<union> f ` set (take i (ps @ [x]))) [0..<length (ps @ [x])] =
   filter (\<lambda>i. f (ps ! i) \<notin> A \<union> f ` set (take i ps)) [0..<length ps] @
   (if f x \<in> A \<union> f ` set ps then [] else [length ps])"
proof -
  have "filter (\<lambda>i. f ((ps @ [x]) ! i) \<notin> A \<union> f ` set (take i (ps @ [x]))) [0..<length ps] =
        filter (\<lambda>i. f (ps ! i) \<notin> A \<union> f ` set (take i ps)) [0..<length ps]"
    by (rule filter_cong) (auto simp: nth_append)
  then show ?thesis by simp
qed

lemma keep_new_index:
  "keep_new seen ps =
   map (\<lambda>i. ps ! i)
     (filter (\<lambda>i. sort_key (ps ! i) \<notin> seen \<union> sort_key ` set (take i ps)) [0..<length ps])"
proof (induction ps rule: rev_induct)
  case Nil
  then show ?case by simp
next
  case (snoc x ps)
  let ?js = "filter (\<lambda>i. sort_key (ps ! i) \<notin> seen \<union> sort_key ` set (take i ps)) [0..<length ps]"
  have m: "map (\<lambda>i. (ps @ [x]) ! i) ?js = map (\<lambda>i. ps ! i) ?js"
    by (rule map_cong) (auto simp: nth_append)
  show ?case
    unfolding keep_new_snoc first_filter_snoc [where f = sort_key]
    by (auto simp: snoc.IH nth_append)
qed

lemma keep_new_first_occurrences:
  assumes "\<forall>p\<in>set ps. text_pair p"
  shows "keep_new {} ps = first_occurrences ps"
proof -
  have "sort_key (ps ! i) \<in> sort_key ` set (take i ps) \<longleftrightarrow>
        unordered (ps ! i) \<in> unordered ` set (take i ps)" if "i < length ps" for i
  proof -
    from that assms have a: "text_pair (ps ! i)" by simp
    have b: "text_pair q" if "q \<in> set (take i ps)" for q
      using that assms by (meson in_set_takeD)
    show ?thesis
      using sort_key_eq_iff [OF a b] sort_key_eq_iff [OF b a] by (auto simp: image_iff)
  qed
  then have "filter (\<lambda>i. sort_key (ps ! i) \<notin> {} \<union> sort_key ` set (take i ps)) [0..<length ps] =
             filter (\<lambda>i. unordered (ps ! i) \<notin> unordered ` set (take i ps)) [0..<length ps]"
    by (intro filter_cong) auto
  then show ?thesis
    by (simp add: keep_new_index first_occurrences_def)
qed

lemma length_first_occurrences:
  "length (first_occurrences ps) = card (unordered ` set ps)"
proof (induction ps rule: rev_induct)
  case Nil
  then show ?case by (simp add: first_occurrences_def)
next
  case (snoc x ps)
  have "length (first_occurrences (ps @ [x])) =
        length (first_occurrences ps) + (if unordered x \<in> unordered ` set ps then 0 else 1)"
    unfolding first_occurrences_def length_map
    using first_filter_snoc [where f = unordered and A = "{}" and ps = ps and x = x]
    by simp
  also have "\<dots> = card (unordered ` set (ps @ [x]))"
    using snoc.IH by (simp add: insert_absorb)
  finally show ?case .
qed

subsection \<open>The context of a frame\<close>

lemma map_of_zip_map:
  "map_of (zip cols (map f r)) k = map_option f (map_of (zip cols r) k)"
proof (induction cols arbitrary: r)
  case Nil
  then show ?case by simp
next
  case (Cons c cols)
  then show ?case by (cases r) auto
qed

lemma row_pair_round:
  "row_pair cols (map round_cell r) = map_option (map_prod round_cell round_cell) (row_pair cols r)"
  by (simp add: row_pair_def map_of_zip_map split: option.splits)

lemma row_pair_round_text:
  "text_codes cols r \<Longrightarrow> row_pair cols (map round_cell r) = row_pair cols r"
  by (cases "row_pair cols r")
     (auto simp: text_codes_def row_pair_round elim: text_pair.elims)

lemma map_filter_Some: "map f xs = map Some ys \<Longrightarrow> List.map_filter f xs = ys"
proof (induction xs arbitrary: ys)
  case Nil
  then show ?case by (simp add: List.map_filter_simps)
next
  case (Cons x xs)
  then show ?case by (cases ys) (auto simp: List.map_filter_simps)
qed

lemma text_rows_pairs:
  "\<forall>r\<in>set rs. text_codes cols r \<Longrightarrow>
   \<exists>ps. map (row_pair cols) rs = map Some ps \<and> (\<forall>p\<in>set ps. text_pair p)"
proof (induction rs)
  case Nil
  then show ?case by simp
next
  case (Cons r rs)
  then obtain ps where ps: "map (row_pair cols) rs = map Some ps" "\<forall>p\<in>set ps. text_pair p"
    by auto
  from Cons.prems obtain p where p: "row_pair cols r = Some p" "text_pair p"
    by (auto simp: text_codes_def split: option.splits)
  with ps have "map (row_pair cols) (r # rs) = map Some (p # ps) \<and> (\<forall>q\<in>set (p # ps). text_pair q)"
    by simp
  then show ?case by blast
qed

lemma columns_df_round1 [simp]: "columns (df_round1 df) = columns df"
  by (simp add: df_round1_def)

lemma rows_df_round1 [simp]: "rows (df_round1 df) = map (map round_cell) (rows df)"
  by (simp add: df_round1_def)

text \<open>
  On a frame whose team codes are text the loop cannot raise, rounding changes no pair,
  and the context holds the frame's records and the first occurrences of its pairs.
\<close>

lemma build_context_text:
  assumes "\<forall>r\<in>set (rows df). text_codes (columns df) r"
  shows "build_context E df =
           Inr (initial_context
                  (''projections'' \<mapsto> CRecords (to_dict_records (df_round1 df)),
                   ''games'' \<mapsto> CList (map (display E) (first_occurrences (team_pairs df)))))
         \<and> length (team_pairs df) = length (rows df)"
proof -
  from text_rows_pairs [OF assms] obtain ps where
    ps: "map (row_pair (columns df)) (rows df) = map Some ps"
    and tp: "\<forall>p\<in>set ps. text_pair p" by blast
  have "map (row_pair (columns df)) (rows (df_round1 df)) = map (row_pair (columns df)) (rows df)"
    using assms by (simp add: row_pair_round_text comp_def)
  with ps have ps': "map (row_pair (columns df)) (rows (df_round1 df)) = map Some ps" by simp
  from ps have t: "team_pairs df = ps"
    by (simp add: team_pairs_def map_filter_Some)
  from ps have len: "length ps = length (rows df)"
    by (metis length_map)
  from matchup_loop_text [OF ps' tp, of E "{}" "[]"]
  have "matchup_loop E (columns df) (rows (df_round1 df)) {} [] =
          Inr (map (display E) (first_occurrences ps))"
    by (simp add: keep_new_first_occurrences [OF tp])
  with t len show ?thesis
    by (simp add: build_context_def Let_def)
qed

lemma home_success:
  assumes "files w (csv_path E) = Some node" and "read_csv E node = Inr df"
    and "build_context E df = Inr c"
  shows "view_ctx (fst (home E req w)) = c"
  by (simp add: home_present [OF assms(1)] assms(2,3))

lemma home_failure:
  assumes "files w (csv_path E) = Some node" and "read_csv E node = Inr df"
    and "build_context E df = Inl e"
  shows "view_ctx (fst (home E req w)) =
           initial_context(''error'' \<mapsto> CStr (''Error loading data: '' @ exn_str E e))"
  by (simp add: home_present [OF assms(1)] assms(2,3))

subsection \<open>The example inputs\<close>

lemma demo_csv_path:
  "csv_path demo_env = [''srv'', ''NBAWeb'', ''data_feed'', ''projections.csv'']"
  by (simp add: csv_path_def data_folder_def base_dir_def dirname_def path_join_def demo_env_def)

lemma demo_file: "files (demo_world node) (csv_path demo_env) = Some node"
  by (simp add: demo_csv_path demo_world_def)

lemma demo_read: "read_csv demo_env node = node"
  by (simp add: demo_env_def)

lemma empty_file: "files empty_world (csv_path demo_env) = None"
  by (simp add: empty_world_def)

lemma round_scenario_A:
  "np_round1 (24333 / 1000) = 243 / 10" "np_round1 (10667 / 1000) = 107 / 10"
  by code_simp+

lemma no_opponent_raises: "build_context demo_env no_opponent = Inl (KeyError ''opponent'')"
  by (simp add: build_context_def Let_def df_round1_def no_opponent_def getitem_def)

lemma round_examples:
  "np_round1 5 = 5" "np_round1 (1 / 4) = 1 / 5" "np_round1 (26 / 25) = 1"
  "np_round1 1 = 1" "np_round1 2 = 2"
  by code_simp+

lemma numbered_opponent_raises:
  "build_context demo_env numbered_opponent = Inl (TypeError (Num 5) (Str ''LAL''))"
  by (simp add: build_context_def Let_def df_round1_def numbered_opponent_def getitem_def
      round_examples)

lemma with_missing_text: "\<forall>r\<in>set (rows with_missing). text_codes (columns with_missing) r"
  by (simp add: with_missing_def text_codes_def row_pair_def)

lemma with_missing_pairs:
  "team_pairs with_missing =
     [(Str ''LAL'', Str ''BOS''), (Str ''BOS'', Str ''LAL''), (Str ''GSW'', Str ''NYK''),
      (Str ''LAL'', Str ''BOS'')]"
  by (simp add: team_pairs_def with_missing_def row_pair_def List.map_filter_simps)

lemma with_missing_first:
  "first_occurrences (team_pairs with_missing) =
     [(Str ''LAL'', Str ''BOS''), (Str ''GSW'', Str ''NYK'')]"
  unfolding with_missing_pairs by code_simp

lemma with_missing_unordered:
  "unordered ` set (team_pairs with_missing) =
     {{Str ''LAL'', Str ''BOS''}, {Str ''GSW'', Str ''NYK''}}"
  by (auto simp: with_missing_pairs unordered_def)

lemma with_missing_card: "card (unordered ` set (team_pairs with_missing)) = 2"
  by (simp add: with_missing_unordered doubleton_eq_iff)




lemma decimal_codes_both_ways_games:
  "view_ctx (fst (home demo_env () (demo_world (Inr decimal_codes_both_ways)))) ''games'' =
     Some (CList [display demo_env (Num 1, Num 2)])"
  by (simp add: home_present [OF demo_file] demo_read build_context_def Let_def df_round1_def
      decimal_codes_both_ways_def getitem_def py_in_def round_examples)

lemma decimal_codes_both_ways_pairs:
  "team_pairs decimal_codes_both_ways =
     [(Num (26 / 25), Num 2), (Num 1, Num 2), (Num 2, Num 1)]"
  by (simp add: team_pairs_def decimal_codes_both_ways_def row_pair_def List.map_filter_simps)

lemma decimal_codes_both_ways_card:
  "card (unordered ` set (team_pairs decimal_codes_both_ways)) = 2"
proof -
  have "unordered ` set (team_pairs decimal_codes_both_ways) =
          {{Num (26 / 25), Num 2}, {Num 1, Num 2}}"
    by (auto simp: decimal_codes_both_ways_pairs unordered_def)
  then show ?thesis by (simp add: doubleton_eq_iff)
qed

section \<open>The claims\<close>

text \<open>
  In the theorems \<open>E\<close> is the environment, \<open>w\<close> the file system before the call and
  \<open>req\<close> the incoming request; \<open>view_ctx (fst (home E req w))\<close> is the context the
  view hands to \<open>render\<close>, and \<open>snd (home E req w)\<close> the file system after the call.
  The file exists when \<open>files w (csv_path E) = Some node\<close>, and it parses when
  \<open>read_csv E node = Inr df\<close>.
\<close>

text \<open>
  \<^bold>\<open>C1\<close> (Scenario A). The file has the two rows (LAL, BOS, 24.333) and
  (BOS, LAL, 10.667), the third column having any name \<open>c\<close>. Then the context is the
  initial one with two more keys: \<open>projections\<close> holds exactly two mappings, the numbers
  rounded to 24.3 and 10.7, and \<open>games\<close> is the one-element list \<open>["LAL vs BOS"]\<close>,
  in the orientation of the first row.
\<close>

theorem scenario_A_context:
  assumes "files w (csv_path E) = Some node"
    and "read_csv E node =
           Inr \<lparr>columns = [''team_abbreviation'', ''opponent'', c],
                rows = [[Str ''LAL'', Str ''BOS'', Num (24333 / 1000)],
                        [Str ''BOS'', Str ''LAL'', Num (10667 / 1000)]]\<rparr>"
  shows "view_ctx (fst (home E req w)) =
           initial_context
             (''projections'' \<mapsto>
                CRecords [[(''team_abbreviation'', Str ''LAL''), (''opponent'', Str ''BOS''),
                           (c, Num (243 / 10))],
                          [(''team_abbreviation'', Str ''BOS''), (''opponent'', Str ''LAL''),
                           (c, Num (107 / 10))]],
              ''games'' \<mapsto> CList [''LAL vs BOS''])"
  by (simp add: home_present [OF assms(1)] assms(2) build_context_def Let_def df_round1_def
      to_dict_records_def getitem_def display_def py_in_def round_scenario_A)

theorem scenario_A_context_witness:
  "files (demo_world (Inr scenario_A)) (csv_path demo_env) = Some (Inr scenario_A) \<and>
   read_csv demo_env (Inr scenario_A) = Inr scenario_A \<and>
   view_ctx (fst (home demo_env () (demo_world (Inr scenario_A)))) ''projections'' =
     Some (CRecords [[(''team_abbreviation'', Str ''LAL''), (''opponent'', Str ''BOS''),
                      (''pts'', Num (243 / 10))],
                     [(''team_abbreviation'', Str ''BOS''), (''opponent'', Str ''LAL''),
                      (''pts'', Num (107 / 10))]]) \<and>
   view_ctx (fst (home demo_env () (demo_world (Inr scenario_A)))) ''games'' =
     Some (CList [''LAL vs BOS'']) \<and>
   view_ctx (fst (home demo_env () (demo_world (Inr scenario_A)))) ''error'' = None"
proof -
  have f: "files (demo_world (Inr scenario_A)) (csv_path demo_env) = Some (Inr scenario_A)"
    by (rule demo_file)
  have r: "read_csv demo_env (Inr scenario_A) =
             Inr \<lparr>columns = [''team_abbreviation'', ''opponent'', ''pts''],
                  rows = [[Str ''LAL'', Str ''BOS'', Num (24333 / 1000)],
                          [Str ''BOS'', Str ''LAL'', Num (10667 / 1000)]]\<rparr>"
    by (simp add: demo_read scenario_A_def)
  show ?thesis
    using f scenario_A_context [OF f r, of "()"]
    by (simp add: demo_read initial_context_def)
qed

text \<open>
  \<^bold>\<open>C3\<close>, as amended. The file exists and parses, and every data row holds text in
  its \<open>team_abbreviation\<close> and in its \<open>opponent\<close> field. Then \<open>games\<close> is a list with as
  many entries as there are distinct unordered pairs \<open>{team_abbreviation, opponent}\<close>
  among the file's rows, so that each unordered pair gives one entry and "A vs B" and
  "B vs A" collapse. Every row has its pair: \<open>team_pairs\<close> drops none.
\<close>

theorem games_count:
  assumes "files w (csv_path E) = Some node"
    and "read_csv E node = Inr df"
    and "\<forall>r\<in>set (rows df). text_codes (columns df) r"
  shows "(\<exists>g. view_ctx (fst (home E req w)) ''games'' = Some (CList g) \<and>
              length g = card (unordered ` set (team_pairs df))) \<and>
         length (team_pairs df) = length (rows df)"
proof -
  note c = build_context_text [OF assms(3), of E]
  from c have "view_ctx (fst (home E req w)) ''games'' =
          Some (CList (map (display E) (first_occurrences (team_pairs df))))"
    by (simp add: home_success [OF assms(1,2) conjunct1 [OF c]])
  with c show ?thesis
    by (simp add: length_first_occurrences)
qed

theorem games_count_witness:
  "files (demo_world (Inr with_missing)) (csv_path demo_env) = Some (Inr with_missing) \<and>
   read_csv demo_env (Inr with_missing) = Inr with_missing \<and>
   list_all (text_codes (columns with_missing)) (rows with_missing) \<and>
   view_ctx (fst (home demo_env () (demo_world (Inr with_missing)))) ''games'' =
     Some (CList [''LAL vs BOS'', ''GSW vs NYK'']) \<and>
   card (unordered ` set (team_pairs with_missing)) = 2 \<and>
   length (team_pairs with_missing) = length (rows with_missing)"
proof -
  let ?games = "view_ctx (fst (home demo_env () (demo_world (Inr with_missing)))) ''games''"
  have g: "?games = Some (CList [''LAL vs BOS'', ''GSW vs NYK''])"
    using build_context_text [OF with_missing_text, of demo_env]
    by (simp add: home_success [OF demo_file demo_read] with_missing_first display_def)
  from games_count [OF demo_file demo_read with_missing_text, of "()"]
  have "length (team_pairs with_missing) = length (rows with_missing)"
    by blast
  then show ?thesis
    using with_missing_text g with_missing_card
    by (simp add: demo_file demo_read list_all_iff)
qed

text \<open>
  \<^bold>\<open>C3\<close> as written fails for a file whose team codes are numbers. The three rows
  (1.04, 2.0), (1.0, 2.0) and (2.0, 1.0) show two unordered pairs, \<open>{1.04, 2}\<close> and
  \<open>{1, 2}\<close>. The frame is rounded before the loop, 1.04 becomes 1.0, all three rows
  get the key \<open>(1.0, 2.0)\<close>, and \<open>games\<close> has one entry.
\<close>

theorem games_count_counterexample:
  "files (demo_world (Inr decimal_codes_both_ways)) (csv_path demo_env) =
     Some (Inr decimal_codes_both_ways) \<and>
   read_csv demo_env (Inr decimal_codes_both_ways) = Inr decimal_codes_both_ways \<and>
   view_ctx (fst (home demo_env () (demo_world (Inr decimal_codes_both_ways)))) ''games'' =
     Some (CList [display demo_env (Num 1, Num 2)]) \<and>
   length [display demo_env (Num 1, Num 2)] = 1 \<and>
   card (unordered ` set (team_pairs decimal_codes_both_ways)) = 2"
  by (simp add: demo_file demo_read decimal_codes_both_ways_games decimal_codes_both_ways_card)




text \<open>
  \<^bold>\<open>C5\<close>. When no file exists at the computed path, the \<open>error\<close> entry of the
  context is the fixed message that tells the operator to run the R script, and the
  context has neither a \<open>projections\<close> nor a \<open>games\<close> key.
\<close>

theorem missing_file_error:
  assumes "files w (csv_path E) = None"
  shows "view_ctx (fst (home E req w)) ''error'' =
           Some (CStr ''File not found. Please run the R script.'') \<and>
         view_ctx (fst (home E req w)) ''projections'' = None \<and>
         view_ctx (fst (home E req w)) ''games'' = None"
  by (simp add: home_absent [OF assms] initial_context_def)

theorem missing_file_error_witness:
  "files empty_world (csv_path demo_env) = None \<and>
   view_ctx (fst (home demo_env () empty_world)) ''error'' =
     Some (CStr ''File not found. Please run the R script.'') \<and>
   view_ctx (fst (home demo_env () empty_world)) ''projections'' = None \<and>
   view_ctx (fst (home demo_env () empty_world)) ''games'' = None"
  using missing_file_error [OF empty_file, of "()"] empty_file by simp

text \<open>
  \<^bold>\<open>C6\<close>. The file exists and an exception \<open>e\<close> is raised, by \<open>pd.read_csv\<close>
  (reading, parsing) or afterwards in the loop over the rows (transforming, for example a
  KeyError for a missing \<open>opponent\<close> column). Then \<open>home\<close> still returns its response:
  the \<open>error\<close> entry is \<open>"Error loading data: "\<close> followed by \<open>str(e)\<close>, and the
  context has neither a \<open>projections\<close> nor a \<open>games\<close> key. The view is a total function
  of the model, the exception being a value that the \<open>except\<close> clause consumes, so no
  exception reaches the caller.
\<close>

theorem exception_caught:
  assumes "files w (csv_path E) = Some node"
    and "read_csv E node = Inl e \<or> (\<exists>df. read_csv E node = Inr df \<and> build_context E df = Inl e)"
  shows "view_ctx (fst (home E req w)) ''error'' =
           Some (CStr (''Error loading data: '' @ exn_str E e)) \<and>
         view_ctx (fst (home E req w)) ''projections'' = None \<and>
         view_ctx (fst (home E req w)) ''games'' = None"
  using assms(2) by (auto simp: home_present [OF assms(1)] initial_context_def)

theorem exception_caught_witness:
  "files (demo_world (Inr no_opponent)) (csv_path demo_env) = Some (Inr no_opponent) \<and>
   read_csv demo_env (Inr no_opponent) = Inr no_opponent \<and>
   build_context demo_env no_opponent = Inl (KeyError ''opponent'') \<and>
   view_ctx (fst (home demo_env () (demo_world (Inr no_opponent)))) ''error'' =
     Some (CStr (''Error loading data: '' @ [CHR 0x27] @ ''opponent'' @ [CHR 0x27])) \<and>
   view_ctx (fst (home demo_env () (demo_world (Inr no_opponent)))) ''projections'' = None \<and>
   view_ctx (fst (home demo_env () (demo_world (Inr no_opponent)))) ''games'' = None"
proof -
  have f: "files (demo_world (Inr no_opponent)) (csv_path demo_env) = Some (Inr no_opponent)"
    by (rule demo_file)
  have r: "read_csv demo_env (Inr no_opponent) = Inl (KeyError ''opponent'') \<or>
           (\<exists>df. read_csv demo_env (Inr no_opponent) = Inr df \<and>
                 build_context demo_env df = Inl (KeyError ''opponent''))"
    by (simp add: demo_read no_opponent_raises)
  have x: "exn_str demo_env (KeyError ''opponent'') = [CHR 0x27] @ ''opponent'' @ [CHR 0x27]"
    by (simp add: demo_env_def)
  from exception_caught [OF f r, of "()"] x
  have c: "view_ctx (fst (home demo_env () (demo_world (Inr no_opponent)))) ''error'' =
       Some (CStr (''Error loading data: '' @ [CHR 0x27] @ ''opponent'' @ [CHR 0x27])) \<and>
     view_ctx (fst (home demo_env () (demo_world (Inr no_opponent)))) ''projections'' = None \<and>
     view_ctx (fst (home demo_env () (demo_world (Inr no_opponent)))) ''games'' = None"
    by simp
  show ?thesis
    using f demo_read [of "Inr no_opponent"] no_opponent_raises c by blast
qed

text \<open>
  \<^bold>\<open>C7\<close>. The context does not depend on the request, and of the file system it
  depends on nothing but the file at the computed path: two calls, with any two requests
  (of any types) and two file systems that agree on that path, build the same context.
\<close>

theorem request_unused:
  assumes "files w1 (csv_path E) = files w2 (csv_path E)"
  shows "view_ctx (fst (home E req1 w1)) = view_ctx (fst (home E req2 w2))"
proof (cases "files w2 (csv_path E)")
  case None
  with assms show ?thesis by (simp add: home_absent)
next
  case (Some node)
  with assms show ?thesis by (simp add: home_present)
qed

theorem request_unused_witness:
  "files (demo_world (Inr four_rows)) (csv_path demo_env) =
     files (demo_world (Inr four_rows)\<lparr>log := [Stat []]\<rparr>) (csv_path demo_env) \<and>
   view_ctx (fst (home demo_env (1::nat) (demo_world (Inr four_rows)))) =
     view_ctx (fst (home demo_env ''GET /?x=2'' (demo_world (Inr four_rows)\<lparr>log := [Stat []]\<rparr>)))"
proof -
  have f: "files (demo_world (Inr four_rows)) (csv_path demo_env) =
     files (demo_world (Inr four_rows)\<lparr>log := [Stat []]\<rparr>) (csv_path demo_env)"
    by simp
  show ?thesis
    using f request_unused [OF f, of "1::nat" "''GET /?x=2''"] by blast
qed

text \<open>
  \<^bold>\<open>C8\<close>. The call leaves every file as it was, and its only accesses are the
  existence test of the CSV path and, when the file exists, one read of that same path.
\<close>

theorem read_only:
  "files (snd (home E req w)) = files w \<and>
   (log (snd (home E req w)) = log w @ [Stat (csv_path E)] \<or>
    log (snd (home E req w)) = log w @ [Stat (csv_path E), Read (csv_path E)])"
proof (cases "files w (csv_path E)")
  case None
  then show ?thesis by (simp add: home_absent)
next
  case (Some node)
  then show ?thesis by (simp add: home_present)
qed

theorem read_only_witness:
  "files (snd (home demo_env () (demo_world (Inr four_rows)))) = files (demo_world (Inr four_rows)) \<and>
   log (snd (home demo_env () (demo_world (Inr four_rows)))) =
     [Stat [''srv'', ''NBAWeb'', ''data_feed'', ''projections.csv''],
      Read [''srv'', ''NBAWeb'', ''data_feed'', ''projections.csv'']]"
proof -
  let ?w = "demo_world (Inr four_rows)"
  from read_only [of demo_env "()" ?w]
  have a: "files (snd (home demo_env () ?w)) = files ?w"
    and b: "log (snd (home demo_env () ?w)) = log ?w @ [Stat (csv_path demo_env)] \<or>
            log (snd (home demo_env () ?w)) =
              log ?w @ [Stat (csv_path demo_env), Read (csv_path demo_env)]"
    by blast+
  have l: "log ?w = []" by (simp add: demo_world_def)
  have "log (snd (home demo_env () ?w)) \<noteq> log ?w @ [Stat (csv_path demo_env)]"
    by (simp add: home_present [OF demo_file])
  with b have "log (snd (home demo_env () ?w)) =
      [Stat [''srv'', ''NBAWeb'', ''data_feed'', ''projections.csv''],
       Read [''srv'', ''NBAWeb'', ''data_feed'', ''projections.csv'']]"
    by (simp add: l demo_csv_path)
  with a show ?thesis by blast
qed

text \<open>
  \<^bold>\<open>C9\<close>. In every outcome the context has the key \<open>title\<close> with the value
  \<open>'NBA AI Projections'\<close> and the key \<open>year\<close> with the value 2026.
\<close>

theorem title_year_always:
  "view_ctx (fst (home E req w)) ''title'' = Some (CStr ''NBA AI Projections'') \<and>
   view_ctx (fst (home E req w)) ''year'' = Some (CInt 2026)"
proof (cases "files w (csv_path E)")
  case None
  then show ?thesis by (simp add: home_absent initial_context_def)
next
  case (Some node)
  then show ?thesis
    by (auto simp: home_present initial_context_def split: sum.splits dest: build_context_title)
qed

text \<open>
  \<^bold>\<open>C10\<close>. When the file exists and parses to a frame with no data row, the call
  succeeds: \<open>projections\<close> and \<open>games\<close> are both the empty list and the context has
  no \<open>error\<close> key. Nothing is asked of the header: the loop body never runs, so even a
  file without the two team columns succeeds.
\<close>

theorem header_only_succeeds:
  assumes "files w (csv_path E) = Some node"
    and "read_csv E node = Inr df"
    and "rows df = []"
  shows "view_ctx (fst (home E req w)) ''projections'' = Some (CRecords []) \<and>
         view_ctx (fst (home E req w)) ''games'' = Some (CList []) \<and>
         view_ctx (fst (home E req w)) ''error'' = None"
  by (simp add: home_present [OF assms(1)] assms(2,3) build_context_def Let_def
      to_dict_records_def initial_context_def)

theorem header_only_succeeds_witness:
  "files (demo_world (Inr header_only)) (csv_path demo_env) = Some (Inr header_only) \<and>
   read_csv demo_env (Inr header_only) = Inr header_only \<and>
   rows header_only = [] \<and>
   view_ctx (fst (home demo_env () (demo_world (Inr header_only)))) ''projections'' =
     Some (CRecords []) \<and>
   view_ctx (fst (home demo_env () (demo_world (Inr header_only)))) ''games'' = Some (CList []) \<and>
   view_ctx (fst (home demo_env () (demo_world (Inr header_only)))) ''error'' = None"
proof -
  have f: "files (demo_world (Inr header_only)) (csv_path demo_env) = Some (Inr header_only)"
    by (rule demo_file)
  have r: "read_csv demo_env (Inr header_only) = Inr header_only" by (rule demo_read)
  have e: "rows header_only = []" by (simp add: header_only_def)
  show ?thesis using f r e header_only_succeeds [OF f r e, of "()"] by blast
qed

end
